theory Spec2Isabelle
  imports Main "HOL-Library.AList" "HOL-Library.Sublist"
begin

section \<open>Data model\<close>

text \<open>
  A tool definition is one JSON object of the catalog. The keys read with a subscript
  (\<^verbatim>\<open>tool['name']\<close>, \<^verbatim>\<open>tool['github_url']\<close>, \<^verbatim>\<open>tool['install_path']\<close>,
  \<^verbatim>\<open>tool['run_command']\<close>) are fields that are always there; \<open>None\<close> in
  \<open>github_url\<close> and \<open>install_path\<close> is JSON \<^verbatim>\<open>null\<close>. The keys read with
  \<^verbatim>\<open>in\<close> or \<^verbatim>\<open>.get\<close> are optional: \<open>None\<close> is "key absent". A Python string is
  the list of the bytes of its UTF-8 encoding; searching, replacing and comparing agree
  on bytes and on characters.
\<close>

datatype run_cmd = Fixed string | PerOS "string \<rightharpoonup> string"

record tool =
  name :: string
  github_url :: "string option"
  install_path :: "string option"
  dependencies :: "(string \<rightharpoonup> string list) option"
  post_install_commands :: "string list option"
  run_command :: run_cmd
  os_compat :: "string list option"
  skip_if_os_not_supported :: "bool option"
  description :: "string option"

text \<open>A catalog maps a category name to its tools, in the order of the file.\<close>

type_synonym catalog = "(string \<times> tool list) list"

text \<open>Python truthiness of an optional string: neither \<^verbatim>\<open>None\<close> nor \<^verbatim>\<open>""\<close>.\<close>

fun truthy :: "string option \<Rightarrow> bool" where
  "truthy None = False"
| "truthy (Some s) = (s \<noteq> [])"

text \<open>
  The exceptions that leave a function of the program: a Python exception that no
  \<^verbatim>\<open>try\<close> of the source catches is a value of this type, returned in place of the
  result.
\<close>

datatype py_error =
    PermissionError
  | IsADirectoryError
  | NotADirectoryError
  | FileExistsError
  | UnicodeDecodeError
  | AttributeError

section \<open>Compatibility filter (uht.py, main, lines 102-123)\<close>

text \<open>
  \<^verbatim>\<open>tool.get('os_compat', [])\<close> and \<^verbatim>\<open>tool.get('skip_if_os_not_supported', False)\<close>.
\<close>

definition os_compat_list :: "tool \<Rightarrow> string list" where
  "os_compat_list t = (case os_compat t of None \<Rightarrow> [] | Some l \<Rightarrow> l)"

definition skip_if_not_supported :: "tool \<Rightarrow> bool" where
  "skip_if_not_supported t = (case skip_if_os_not_supported t of None \<Rightarrow> False | Some b \<Rightarrow> b)"

text \<open>The \<^verbatim>\<open>if\<close>/\<^verbatim>\<open>elif\<close> chain that sets \<^verbatim>\<open>is_compatible\<close> (lines 108-116).\<close>

definition is_compatible :: "string \<Rightarrow> tool \<Rightarrow> bool" where
  "is_compatible OS_TYPE t =
     (if OS_TYPE \<in> set (os_compat_list t) then True
      else if ''any'' \<in> set (os_compat_list t) then True
      else if os_compat_list t = [] \<and> \<not> skip_if_not_supported t then True
      else False)"

text \<open>
  The loop over \<^verbatim>\<open>category_tools\<close> (lines 104-123): \<^verbatim>\<open>continue\<close> for a tool that is
  to be skipped, \<^verbatim>\<open>append\<close> for a compatible one. The result is the list handed to
  \<^verbatim>\<open>display_tool_menu\<close>, which prints one row for each of its elements and nothing else.
\<close>

fun final_compatible_tools :: "string \<Rightarrow> tool list \<Rightarrow> tool list" where
  "final_compatible_tools OS_TYPE [] = []"
| "final_compatible_tools OS_TYPE (t # ts) =
     (if skip_if_not_supported t \<and> \<not> is_compatible OS_TYPE t
      then final_compatible_tools OS_TYPE ts
      else if is_compatible OS_TYPE t
      then t # final_compatible_tools OS_TYPE ts
      else final_compatible_tools OS_TYPE ts)"

section \<open>Environment detector (lib/os\_utils.py, get\_os\_type)\<close>

text \<open>
  The host signals \<^verbatim>\<open>get_os_type\<close> reads, at the granularity the source observes them:
  whether \<^verbatim>\<open>ANDROID_ROOT\<close> is in the environment, whether the Termux directory is there,
  \<^verbatim>\<open>platform.system()\<close>, and \<^verbatim>\<open>/etc/os-release\<close>. That file is absent
  (\<^verbatim>\<open>Path.exists\<close> is false), or it exists and \<^verbatim>\<open>open\<close> or \<^verbatim>\<open>read\<close> raises (no
  permission, a directory, bytes that do not decode), or it exists and has a text.
\<close>

datatype os_release_file = NoFile | Raises py_error | Content string

record signals =
  android_root :: bool
  termux_dir :: bool
  system :: string
  os_release :: os_release_file

text \<open>Python's \<^verbatim>\<open>pat in s\<close> on strings: \<open>pat\<close> occurs in \<open>s\<close> as a contiguous block.\<close>

fun contains :: "string \<Rightarrow> string \<Rightarrow> bool" where
  "contains [] pat = (pat = [])"
| "contains (c # cs) pat = (prefix pat (c # cs) \<or> contains cs pat)"

text \<open>
  The \<^verbatim>\<open>with open(...)\<close> of lines 57-58 is inside no \<^verbatim>\<open>try\<close>: what it raises leaves
  \<^verbatim>\<open>get_os_type\<close>.
\<close>

definition get_os_type :: "signals \<Rightarrow> py_error + string" where
  "get_os_type s =
     (if android_root s \<or> termux_dir s then Inr ''termux''
      else if system s = ''Linux'' then
        (case os_release s of
           Content content \<Rightarrow>
             (if contains content ''ID=debian'' \<or> contains content ''ID_LIKE=debian''
                 \<or> contains content ''ID=ubuntu''
              then Inr ''debian_based_linux''
              else if contains content ''ID=arch'' \<or> contains content ''ID_LIKE=arch''
              then Inr ''arch_based_linux''
              else Inr ''linux'')
         | Raises e \<Rightarrow> Inl e
         | NoFile \<Rightarrow> Inr ''linux'')
      else if system s = ''Windows'' then Inr ''windows''
      else if system s = ''Darwin'' then Inr ''macos''
      else Inr ''unsupported'')"

section \<open>The host: external processes and the file system\<close>

text \<open>
  Everything outside the program is a world \<open>'w\<close> that the host functions observe and
  change. \<open>which\<close> is \<^verbatim>\<open>subprocess.run(['which', name], check=True)\<close> not raising;
  \<open>shell\<close> is \<^verbatim>\<open>subprocess.run(cmd_str, shell=True, check=True, cwd=cwd)\<close> not raising
  (every exception is caught by \<^verbatim>\<open>run_command_in_os_utils\<close>, which then returns
  \<^verbatim>\<open>False\<close>); \<open>subprocess_run\<close> is a direct \<^verbatim>\<open>subprocess.run(argv, check=True)\<close>.
  \<open>path_exists\<close> and \<open>path_is_dir\<close> are the answers of \<^verbatim>\<open>Path.exists()\<close> and
  \<^verbatim>\<open>Path.is_dir()\<close>.
  \<open>iterdir\<close> is \<^verbatim>\<open>Path.iterdir()\<close> and \<open>mkdir_parents\<close> is
  \<^verbatim>\<open>Path.mkdir(parents=True, exist_ok=True)\<close>: the source calls both outside any
  \<^verbatim>\<open>try\<close>, so each either raises (\<open>Inl\<close>: the path is not a directory, cannot be read,
  cannot be created) or gives its result.
  \<open>path_str\<close>, \<open>path_parent\<close> and \<open>path_join\<close> are pathlib's \<^verbatim>\<open>str(Path(s))\<close>,
  \<^verbatim>\<open>str(Path(s).parent)\<close> and \<^verbatim>\<open>str(Path(s) / n)\<close>; pathlib is a library, so they
  are parameters.
\<close>

datatype proc_result = CalledProcessError | OtherException | Completed string

record dir_entry =
  entry_name :: string
  entry_is_dir :: bool
  entry_is_file :: bool

record 'w host =
  which :: "'w \<Rightarrow> string \<Rightarrow> bool"
  shell :: "'w \<Rightarrow> string \<Rightarrow> string option \<Rightarrow> bool \<times> 'w"
  subprocess_run :: "'w \<Rightarrow> string list \<Rightarrow> proc_result \<times> 'w"
  path_exists :: "'w \<Rightarrow> string \<Rightarrow> bool"
  path_is_dir :: "'w \<Rightarrow> string \<Rightarrow> bool"
  iterdir :: "'w \<Rightarrow> string \<Rightarrow> py_error + dir_entry list"
  mkdir_parents :: "'w \<Rightarrow> string \<Rightarrow> py_error + 'w"
  path_str :: "string \<Rightarrow> string"
  path_parent :: "string \<Rightarrow> string"
  path_join :: "string \<Rightarrow> string \<Rightarrow> string"

text \<open>
  Each function returns, besides its result and the new world, the external processes it
  started, in order. A \<open>Run\<close> event carries the call site it comes from: the
  package-manager update and install of \<^verbatim>\<open>install_system_package\<close>, the pull and the
  clone of \<^verbatim>\<open>install_tool\<close>, a post-install command, the pip call of
  \<^verbatim>\<open>install_python_requirements\<close>, the command of \<^verbatim>\<open>run_tool\<close>.
\<close>

datatype purpose = PkgUpdate | PkgInstall | GitPull | GitClone | PostInstall | PipInstall | RunTool

datatype event = Which string | Run purpose string "string option" | Subprocess "string list"

text \<open>
  A function that can raise returns \<open>Inl\<close> with the exception, the world and the
  processes started up to the raise, or \<open>Inr\<close> with its boolean result.
\<close>

type_synonym 'w run = "(py_error \<times> 'w \<times> event list) + (bool \<times> 'w \<times> event list)"

text \<open>\<^verbatim>\<open>' '.join(command)\<close>\<close>

fun join_sp :: "string list \<Rightarrow> string" where
  "join_sp [] = []"
| "join_sp [x] = x"
| "join_sp (x # y # ys) = x @ '' '' @ join_sp (y # ys)"

text \<open>
  \<^verbatim>\<open>run_command_in_os_utils(command, description, ..., cwd)\<close> for a command given as a
  list; \<open>run_command_str\<close> is the same for a command given as one string.
\<close>

definition run_command_str ::
  "'w host \<Rightarrow> purpose \<Rightarrow> string \<Rightarrow> string option \<Rightarrow> 'w \<Rightarrow> bool \<times> 'w \<times> event list" where
  "run_command_str h p cmd_str cwd w =
     (case shell h w cmd_str cwd of (ok, w') \<Rightarrow> (ok, w', [Run p cmd_str cwd]))"

definition run_command_in_os_utils ::
  "'w host \<Rightarrow> purpose \<Rightarrow> string list \<Rightarrow> string option \<Rightarrow> 'w \<Rightarrow> bool \<times> 'w \<times> event list" where
  "run_command_in_os_utils h p command cwd w = run_command_str h p (join_sp command) cwd w"

section \<open>System dependency installer (lib/os\_utils.py, install\_system\_package)\<close>

text \<open>
  \<^verbatim>\<open>str.strip()\<close> removes the leading and trailing whitespace characters: the code
  points U+0009 to U+000D, U+001C to U+0020, U+0085, U+00A0, U+1680, U+2000 to U+200A,
  U+2028, U+2029, U+202F, U+205F and U+3000. A string is the list of the bytes of its
  UTF-8 encoding, so a whitespace character is one of these byte sequences.
\<close>

definition py_whitespace :: "string list" where
  "py_whitespace =
     map (\<lambda>c. [c]) [CHR 0x09, CHR 0x0A, CHR 0x0B, CHR 0x0C, CHR 0x0D,
                     CHR 0x1C, CHR 0x1D, CHR 0x1E, CHR 0x1F, CHR 0x20]
     @ [[CHR 0xC2, CHR 0x85], [CHR 0xC2, CHR 0xA0], [CHR 0xE1, CHR 0x9A, CHR 0x80]]
     @ map (\<lambda>c. [CHR 0xE2, CHR 0x80, c])
         [CHR 0x80, CHR 0x81, CHR 0x82, CHR 0x83, CHR 0x84, CHR 0x85, CHR 0x86, CHR 0x87,
          CHR 0x88, CHR 0x89, CHR 0x8A, CHR 0xA8, CHR 0xA9, CHR 0xAF]
     @ [[CHR 0xE2, CHR 0x81, CHR 0x9F], [CHR 0xE3, CHR 0x80, CHR 0x80]]"

text \<open>Remove from the front of \<open>s\<close> every sequence of \<open>seqs\<close>, as long as one is there.\<close>

fun lstrip_seqs :: "string list \<Rightarrow> string \<Rightarrow> string" where
  "lstrip_seqs seqs [] = []"
| "lstrip_seqs seqs (c # cs) =
     (case find (\<lambda>p. p \<noteq> [] \<and> prefix p (c # cs)) seqs of
        None \<Rightarrow> c # cs
      | Some p \<Rightarrow> lstrip_seqs seqs (drop (length p - 1) cs))"

definition strip :: "string \<Rightarrow> string" where
  "strip s = rev (lstrip_seqs (map rev py_whitespace) (rev (lstrip_seqs py_whitespace s)))"

definition special_names :: "string list" where
  "special_names = [''python'', ''python3'', ''pip'', ''pip3'', ''go'', ''java'', ''perl'',
                    ''ruby'', ''bash'', ''powershell'']"

text \<open>Lines 105-117: is the package there already? With the \<^verbatim>\<open>which\<close> calls made.\<close>

definition already_installed :: "'w host \<Rightarrow> 'w \<Rightarrow> string \<Rightarrow> bool \<times> event list" where
  "already_installed h w package_name =
     (if package_name \<in> set special_names then
        (if which h w package_name then (True, [Which package_name])
         else if package_name = ''java'' then
           (if which h w ''java'' then (True, [Which package_name, Which ''java''])
            else if which h w ''javac''
            then (True, [Which package_name, Which ''java'', Which ''javac''])
            else (False, [Which package_name, Which ''java'', Which ''javac'']))
         else (False, [Which package_name]))
      else (which h w package_name, [Which package_name]))"

text \<open>
  Lines 120-159: the pair \<^verbatim>\<open>(update_cmd, install_cmd)\<close> for the OS type, \<open>None\<close>
  where the source returns \<^verbatim>\<open>False\<close> at once.
\<close>

definition package_manager ::
  "'w host \<Rightarrow> 'w \<Rightarrow> string \<Rightarrow> string \<Rightarrow> (string list \<times> string list) option \<times> event list" where
  "package_manager h w package_name os_type =
     (if os_type = ''termux'' then
        (Some ([''pkg'', ''update'', ''-y''], [''pkg'', ''install'', ''-y'', package_name]), [])
      else if os_type = ''debian_based_linux'' then
        (Some ([''sudo'', ''apt'', ''update'', ''-y''],
               [''sudo'', ''apt'', ''install'', ''-y'', package_name]), [])
      else if os_type = ''arch_based_linux'' then
        (Some ([''sudo'', ''pacman'', ''-Sy'', ''--noconfirm''],
               [''sudo'', ''pacman'', ''-S'', ''--noconfirm'', package_name]), [])
      else if os_type = ''windows'' then
        (if which h w ''choco''
         then (Some ([], [''choco'', ''install'', ''-y'', package_name]), [Which ''choco''])
         else if which h w ''winget''
         then (Some ([], [''winget'', ''install'', ''-e'', ''--id'', package_name]),
               [Which ''choco'', Which ''winget''])
         else (None, [Which ''choco'', Which ''winget'']))
      else if os_type = ''macos'' then
        (if which h w ''brew''
         then (Some ([''brew'', ''update''], [''brew'', ''install'', package_name]),
               [Which ''brew''])
         else (None, [Which ''brew'']))
      else (None, []))"

text \<open>Lines 161-171: the update command, whose failure is only a warning, then the install.\<close>

definition update_then_install ::
  "'w host \<Rightarrow> string list \<Rightarrow> string list \<Rightarrow> 'w \<Rightarrow> bool \<times> 'w \<times> event list" where
  "update_then_install h update_cmd install_cmd w =
     (case (if update_cmd \<noteq> [] then
              (case run_command_in_os_utils h PkgUpdate update_cmd None w of
                 (ok, w', ev) \<Rightarrow> (w', ev))
            else (w, [])) of
        (w1, ev1) \<Rightarrow>
          (if install_cmd \<noteq> [] then
             (case run_command_in_os_utils h PkgInstall install_cmd None w1 of
                (ok, w2, ev2) \<Rightarrow> (ok, w2, ev1 @ ev2))
           else (False, w1, ev1)))"

definition install_system_package ::
  "'w host \<Rightarrow> string \<Rightarrow> string \<Rightarrow> 'w \<Rightarrow> bool \<times> 'w \<times> event list" where
  "install_system_package h package_name os_type w =
     (if strip package_name = [] then (True, w, [])
      else
        (case already_installed h w package_name of
           (True, ev1) \<Rightarrow> (True, w, ev1)
         | (False, ev1) \<Rightarrow>
             (case package_manager h w package_name os_type of
                (None, ev2) \<Rightarrow> (False, w, ev1 @ ev2)
              | (Some (update_cmd, install_cmd), ev2) \<Rightarrow>
                  (case update_then_install h update_cmd install_cmd w of
                     (ok, w', ev3) \<Rightarrow> (ok, w', ev1 @ ev2 @ ev3)))))"

text \<open>lib/os\_utils.py, \<^verbatim>\<open>install_python_requirements\<close> (lines 173-196).\<close>

definition install_python_requirements ::
  "'w host \<Rightarrow> string \<Rightarrow> 'w \<Rightarrow> bool \<times> 'w \<times> event list" where
  "install_python_requirements h tool_path w =
     (let req_file = path_join h tool_path ''requirements.txt'' in
      if path_exists h w req_file then
        (if which h w ''pip3'' then
           (case run_command_in_os_utils h PipInstall [''pip3'', ''install'', ''-r'', req_file] None w of
              (ok, w', ev) \<Rightarrow> (ok, w', Which ''pip3'' # ev))
         else if which h w ''pip'' then
           (case run_command_in_os_utils h PipInstall [''pip'', ''install'', ''-r'', req_file] None w of
              (ok, w', ev) \<Rightarrow> (ok, w', Which ''pip3'' # Which ''pip'' # ev))
         else (False, w, [Which ''pip3'', Which ''pip'']))
      else (False, w, []))"

section \<open>Installed state (lib/tool\_manager.py, get\_installed\_tools\_names)\<close>

text \<open>
  \<^verbatim>\<open>PurePath.suffix\<close> of a file name, as pathlib computes it: with \<open>i\<close> the index of the
  last dot, the suffix is \<^verbatim>\<open>name[i:]\<close> when \<^verbatim>\<open>0 < i < len(name) - 1\<close> and empty
  otherwise.
\<close>

fun rfind :: "char \<Rightarrow> string \<Rightarrow> nat option" where
  "rfind c [] = None"
| "rfind c (x # xs) =
     (case rfind c xs of
        Some i \<Rightarrow> Some (Suc i)
      | None \<Rightarrow> if x = c then Some 0 else None)"

definition path_suffix :: "string \<Rightarrow> string" where
  "path_suffix nm =
     (case rfind (CHR ''.'') nm of
        Some i \<Rightarrow> if 0 < i \<and> i + 1 < length nm then drop i nm else []
      | None \<Rightarrow> [])"

text \<open>The loop over \<^verbatim>\<open>Path(tools_dir).iterdir()\<close>, adding to \<^verbatim>\<open>installed_names\<close>.\<close>

fun scan_entries :: "dir_entry list \<Rightarrow> string set \<Rightarrow> string set" where
  "scan_entries [] installed_names = installed_names"
| "scan_entries (item # items) installed_names =
     scan_entries items
       (if entry_is_dir item then insert (entry_name item) installed_names
        else if entry_is_file item \<and> path_suffix (entry_name item) = ''.txt''
        then insert (entry_name item) installed_names
        else installed_names)"

text \<open>
  Lines 23-24: the root is guarded by \<^verbatim>\<open>Path.exists()\<close> only, so \<^verbatim>\<open>iterdir()\<close> raises
  for a root that exists and is not a directory that can be read.
\<close>

definition get_installed_tools_names :: "'w host \<Rightarrow> 'w \<Rightarrow> string \<Rightarrow> py_error + string set" where
  "get_installed_tools_names h w tools_dir =
     (if path_exists h w (path_str h tools_dir)
      then (case iterdir h w (path_str h tools_dir) of
              Inl e \<Rightarrow> Inl e
            | Inr items \<Rightarrow> Inr (scan_entries items {}))
      else Inr {})"

section \<open>Tool installer/updater (lib/tool\_manager.py, install\_tool)\<close>

text \<open>
  Lines 45-46: \<^verbatim>\<open>tool_data['dependencies'].get(os_type, tool_data['dependencies'].get('default', []))\<close>,
  and no dependency at all without the key.
\<close>

definition system_dependencies :: "tool \<Rightarrow> string \<Rightarrow> string list" where
  "system_dependencies tool_data os_type =
     (case dependencies tool_data of
        None \<Rightarrow> []
      | Some d \<Rightarrow>
          (case d os_type of
             Some l \<Rightarrow> l
           | None \<Rightarrow> (case d ''default'' of Some l \<Rightarrow> l | None \<Rightarrow> [])))"

text \<open>Lines 50-54: the loop over the dependencies, which returns at the first failure.\<close>

fun install_dependencies ::
  "'w host \<Rightarrow> string list \<Rightarrow> string \<Rightarrow> 'w \<Rightarrow> bool \<times> 'w \<times> event list" where
  "install_dependencies h [] os_type w = (True, w, [])"
| "install_dependencies h (dep # deps) os_type w =
     (case install_system_package h dep os_type w of
        (ok, w1, ev1) \<Rightarrow>
          if \<not> ok then (False, w1, ev1)
          else (case install_dependencies h deps os_type w1 of
                  (ok2, w2, ev2) \<Rightarrow> (ok2, w2, ev1 @ ev2)))"

text \<open>
  \<^verbatim>\<open>tool_full_path = Path(install_path_str) if install_path_str else None\<close>; a
  \<^verbatim>\<open>Path\<close> is always truthy, so \<^verbatim>\<open>tool_full_path\<close> is truthy exactly when the string is.
\<close>

definition tool_full_path :: "'w host \<Rightarrow> tool \<Rightarrow> string option" where
  "tool_full_path h tool_data =
     (case install_path tool_data of
        None \<Rightarrow> None
      | Some p \<Rightarrow> if p = [] then None else Some (path_str h p))"

text \<open>
  Lines 60-80: clone or pull. With both the URL and the path: create the parent directory
  (line 61, inside no \<^verbatim>\<open>try\<close>: what \<^verbatim>\<open>mkdir\<close> raises leaves \<^verbatim>\<open>install_tool\<close>),
  then pull when the path exists, clone when it does not. Otherwise nothing is fetched and
  the step does not fail.
\<close>

definition fetch_step :: "'w host \<Rightarrow> tool \<Rightarrow> 'w \<Rightarrow> 'w run" where
  "fetch_step h tool_data w =
     (case (github_url tool_data, tool_full_path h tool_data) of
        (Some repo_url, Some full_path) \<Rightarrow>
          if repo_url = [] then Inr (True, w, [])
          else
            (case mkdir_parents h w (path_parent h full_path) of
               Inl e \<Rightarrow> Inl (e, w, [])
             | Inr w1 \<Rightarrow>
                 if path_exists h w1 full_path
                 then Inr (run_command_in_os_utils h GitPull
                             [''git'', ''-C'', full_path, ''pull''] None w1)
                 else Inr (run_command_in_os_utils h GitClone
                             [''git'', ''clone'', repo_url, full_path] None w1))
      | _ \<Rightarrow> Inr (True, w, []))"

text \<open>\<^verbatim>\<open>cmd.replace("{{install_path}}", str(tool_full_path))\<close>\<close>

fun replace_install_path :: "string \<Rightarrow> string \<Rightarrow> string" where
  "replace_install_path p [] = []"
| "replace_install_path p (c # cs) =
     (if prefix ''{{install_path}}'' (c # cs)
      then p @ replace_install_path p (drop 15 cs)
      else c # replace_install_path p cs)"

text \<open>Lines 89-97: the loop over the post-install commands, run in the tool's directory.\<close>

fun run_post_install ::
  "'w host \<Rightarrow> string \<Rightarrow> string list \<Rightarrow> 'w \<Rightarrow> bool \<times> 'w \<times> event list" where
  "run_post_install h full_path [] w = (True, w, [])"
| "run_post_install h full_path (cmd # cmds) w =
     (case run_command_str h PostInstall (replace_install_path full_path cmd) (Some full_path) w of
        (ok, w1, ev1) \<Rightarrow>
          if \<not> ok then (False, w1, ev1)
          else (case run_post_install h full_path cmds w1 of
                  (ok2, w2, ev2) \<Rightarrow> (ok2, w2, ev1 @ ev2)))"

text \<open>Lines 84-100: the commands run only when there are some and the path exists.\<close>

definition post_install_step :: "'w host \<Rightarrow> tool \<Rightarrow> 'w \<Rightarrow> bool \<times> 'w \<times> event list" where
  "post_install_step h tool_data w =
     (case post_install_commands tool_data of
        None \<Rightarrow> (True, w, [])
      | Some cmds \<Rightarrow>
          if cmds = [] then (True, w, [])
          else
            (case tool_full_path h tool_data of
               None \<Rightarrow> (True, w, [])
             | Some full_path \<Rightarrow>
                 if path_exists h w full_path then run_post_install h full_path cmds w
                 else (True, w, [])))"

text \<open>
  Lines 103-107: the condition of the \<^verbatim>\<open>if\<close>. Its value only chooses between two
  messages.
\<close>

definition requirements_step :: "'w host \<Rightarrow> tool \<Rightarrow> 'w \<Rightarrow> bool \<times> 'w \<times> event list" where
  "requirements_step h tool_data w =
     (case tool_full_path h tool_data of
        None \<Rightarrow> (False, w, [])
      | Some full_path \<Rightarrow>
          if path_exists h w full_path then install_python_requirements h full_path w
          else (False, w, []))"

definition install_tool :: "'w host \<Rightarrow> tool \<Rightarrow> string \<Rightarrow> 'w \<Rightarrow> 'w run" where
  "install_tool h tool_data os_type w =
     (case install_dependencies h (system_dependencies tool_data os_type) os_type w of
        (ok1, w1, ev1) \<Rightarrow>
          if \<not> ok1 then Inr (False, w1, ev1)
          else
            (case fetch_step h tool_data w1 of
               Inl (e, w2, ev2) \<Rightarrow> Inl (e, w2, ev1 @ ev2)
             | Inr (ok2, w2, ev2) \<Rightarrow>
                 if \<not> ok2 then Inr (False, w2, ev1 @ ev2)
                 else
                   (case post_install_step h tool_data w2 of
                      (ok3, w3, ev3) \<Rightarrow>
                        if \<not> ok3 then Inr (False, w3, ev1 @ ev2 @ ev3)
                        else
                          (case requirements_step h tool_data w3 of
                             (handled, w4, ev4) \<Rightarrow>
                               Inr (True, w4, ev1 @ ev2 @ ev3 @ ev4)))))"

section \<open>Running a tool (lib/tool\_manager.py, run\_tool)\<close>

text \<open>
  Lines 121-131: the command is the string itself, or is looked up in the per-OS mapping
  under the detected OS type and then under \<^verbatim>\<open>default\<close>.
\<close>

definition resolve_run_command :: "run_cmd \<Rightarrow> string \<Rightarrow> string option" where
  "resolve_run_command run_command_raw current_os_type =
     (case run_command_raw of
        PerOS m \<Rightarrow> (case m current_os_type of Some c \<Rightarrow> Some c | None \<Rightarrow> m ''default'')
      | Fixed c \<Rightarrow> Some c)"

text \<open>
  Line 122 calls \<^verbatim>\<open>get_os_type()\<close> first, in no \<^verbatim>\<open>try\<close>: what it raises leaves
  \<^verbatim>\<open>run_tool\<close>.
\<close>

definition run_tool :: "'w host \<Rightarrow> signals \<Rightarrow> tool \<Rightarrow> 'w \<Rightarrow> 'w run" where
  "run_tool h sig tool_data w =
     (case get_os_type sig of
        Inl e \<Rightarrow> Inl (e, w, [])
      | Inr current_os_type \<Rightarrow>
          (case resolve_run_command (run_command tool_data) current_os_type of
             None \<Rightarrow> Inr (False, w, [])
           | Some cmd \<Rightarrow>
               (case tool_full_path h tool_data of
                  None \<Rightarrow> Inr (True, w, [])
                | Some full_path \<Rightarrow>
                    if \<not> path_exists h w full_path then Inr (False, w, [])
                    else Inr (run_command_str h RunTool cmd (Some full_path) w))))"

section \<open>Remote catalog synchronizer (lib/update\_checker.py)\<close>

text \<open>
  What the functions of this module and the update-check branch of \<^verbatim>\<open>main\<close> print,
  one constructor for each message.
\<close>

datatype msg =
    Err_url_not_configured
  | Info_fetching
  | Err_timeout
  | Err_connection
  | Err_request
  | Err_parse
  | Warn_remote_unavailable
  | Info_checking_updates
  | Warn_git_error string
  | Warn_unexpected_error string
  | Status_header
  | New_tools_header
  | New_tool string
  | No_new_tools
  | Updates_header
  | Update_tool string
  | All_up_to_date
  | Status_footer
  | Err_could_not_check

text \<open>
  \<^verbatim>\<open>requests.get(url, timeout=t)\<close> raises \<^verbatim>\<open>Timeout\<close>, \<^verbatim>\<open>ConnectionError\<close> or another
  \<^verbatim>\<open>RequestException\<close>, or returns a response with a status code and a text;
  \<^verbatim>\<open>json5.loads\<close> raises a \<^verbatim>\<open>ValueError\<close> for a text it cannot parse (\<open>None\<close>) or
  returns the parsed catalog. Both are libraries, so they are parameters.
\<close>

datatype http_result = Timeout | ConnectionError | RequestException | Response nat string

record net =
  requests_get :: "string \<Rightarrow> nat \<Rightarrow> http_result"
  json5_loads :: "string \<Rightarrow> catalog option"

text \<open>
  \<^verbatim>\<open>get_remote_tools_data\<close> (lines 17-44). \<^verbatim>\<open>raise_for_status\<close> raises an
  \<^verbatim>\<open>HTTPError\<close>, which is a \<^verbatim>\<open>RequestException\<close>, for a status from 400 to 599. The
  three \<^verbatim>\<open>except\<close> clauses for the request each print their own message and return
  \<^verbatim>\<open>None\<close>. The \<^verbatim>\<open>ValueError\<close> of \<^verbatim>\<open>json5.loads\<close> matches none of them and reaches the
  clause \<^verbatim>\<open>except json5.JSON5Error\<close> (line 41); the module \<^verbatim>\<open>json5\<close> has no attribute
  of that name, so looking the clause up raises an \<^verbatim>\<open>AttributeError\<close>, which leaves the
  function: the message of line 43 is never printed.
\<close>

definition get_remote_tools_data :: "net \<Rightarrow> string \<Rightarrow> py_error + (catalog option \<times> msg list)" where
  "get_remote_tools_data n remote_url =
     (if remote_url = [] then Inr (None, [Err_url_not_configured])
      else
        (case requests_get n remote_url 15 of
           Timeout \<Rightarrow> Inr (None, [Info_fetching, Err_timeout])
         | ConnectionError \<Rightarrow> Inr (None, [Info_fetching, Err_connection])
         | RequestException \<Rightarrow> Inr (None, [Info_fetching, Err_request])
         | Response status body \<Rightarrow>
             if 400 \<le> status \<and> status < 600 then Inr (None, [Info_fetching, Err_request])
             else
               (case json5_loads n body of
                  None \<Rightarrow> Inl AttributeError
                | Some data \<Rightarrow> Inr (Some data, [Info_fetching]))))"

text \<open>
  Lines 58-66: the two flattening loops. A Python dict keeps the position of a key's
  first insertion and the value of its last one, which is \<open>AList.update\<close>.
\<close>

definition flat_tools :: "catalog \<Rightarrow> (string \<times> tool) list" where
  "flat_tools tools_data =
     foldl (\<lambda>d category_tools. foldl (\<lambda>d t. AList.update (name t) t d) d category_tools)
       [] (map snd tools_data)"

text \<open>
  Lines 69-76: the loop over \<^verbatim>\<open>remote_flat_tools.items()\<close>. \<open>installed_tools_names\<close> is
  the Python set, given as the list of its elements in the order Python iterates it.
\<close>

definition is_new_tool :: "(string \<times> tool) list \<Rightarrow> string list \<Rightarrow> string \<times> tool \<Rightarrow> bool" where
  "is_new_tool local_flat_tools installed_tools_names item =
     (case item of (tool_name, tool_data) \<Rightarrow>
        truthy (github_url tool_data) \<and> truthy (install_path tool_data) \<and>
        tool_name \<notin> set installed_tools_names \<and>
        tool_name \<notin> fst ` set local_flat_tools)"

definition new_tools_loop ::
  "(string \<times> tool) list \<Rightarrow> (string \<times> tool) list \<Rightarrow> string list \<Rightarrow> tool list" where
  "new_tools_loop remote_flat_tools local_flat_tools installed_tools_names =
     map snd (filter (is_new_tool local_flat_tools installed_tools_names) remote_flat_tools)"

text \<open>
  Lines 81-114, for one installed name: is an update available? The two git calls are
  inside one \<^verbatim>\<open>try\<close>; a \<^verbatim>\<open>CalledProcessError\<close> and any other exception are warnings.
\<close>

definition check_one_update ::
  "'w host \<Rightarrow> (string \<times> tool) list \<Rightarrow> string \<Rightarrow> 'w \<Rightarrow> tool option \<times> 'w \<times> event list \<times> msg list" where
  "check_one_update h local_flat_tools tool_name w =
     (case map_of local_flat_tools tool_name of
        None \<Rightarrow> (None, w, [], [])
      | Some local_tool_data \<Rightarrow>
          (case tool_full_path h local_tool_data of
             None \<Rightarrow> (None, w, [], [])
           | Some tool_path \<Rightarrow>
               if \<not> truthy (github_url local_tool_data) then (None, w, [], [])
               else if path_is_dir h w tool_path \<and> path_is_dir h w (path_join h tool_path ''.git'')
               then
                 (let fetch = [''git'', ''-C'', tool_path, ''fetch'', ''--all''];
                      status = [''git'', ''-C'', tool_path, ''status'', ''-uno'']
                  in case subprocess_run h w fetch of
                       (CalledProcessError, w1) \<Rightarrow>
                         (None, w1, [Subprocess fetch], [Warn_git_error tool_name])
                     | (OtherException, w1) \<Rightarrow>
                         (None, w1, [Subprocess fetch], [Warn_unexpected_error tool_name])
                     | (Completed out1, w1) \<Rightarrow>
                         (case subprocess_run h w1 status of
                            (CalledProcessError, w2) \<Rightarrow>
                              (None, w2, [Subprocess fetch, Subprocess status],
                               [Warn_git_error tool_name])
                          | (OtherException, w2) \<Rightarrow>
                              (None, w2, [Subprocess fetch, Subprocess status],
                               [Warn_unexpected_error tool_name])
                          | (Completed stdout, w2) \<Rightarrow>
                              (if contains stdout ''Your branch is behind''
                                  \<or> contains stdout ''have diverged''
                               then Some local_tool_data else None,
                               w2, [Subprocess fetch, Subprocess status], [])))
               else (None, w, [], [])))"

text \<open>Lines 80-114: the loop over \<^verbatim>\<open>installed_tools_names\<close>.\<close>

fun updates_loop ::
  "'w host \<Rightarrow> (string \<times> tool) list \<Rightarrow> string list \<Rightarrow> 'w \<Rightarrow> tool list \<times> 'w \<times> event list \<times> msg list" where
  "updates_loop h local_flat_tools [] w = ([], w, [], [])"
| "updates_loop h local_flat_tools (tool_name # names) w =
     (case check_one_update h local_flat_tools tool_name w of
        (found, w1, ev1, m1) \<Rightarrow>
          (case updates_loop h local_flat_tools names w1 of
             (tools_to_update, w2, ev2, m2) \<Rightarrow>
               ((case found of None \<Rightarrow> [] | Some t \<Rightarrow> [t]) @ tools_to_update,
                w2, ev1 @ ev2, m1 @ m2)))"

definition check_for_tool_updates_and_new_tools ::
  "'w host \<Rightarrow> catalog \<Rightarrow> catalog \<Rightarrow> string list \<Rightarrow> 'w
     \<Rightarrow> (tool list \<times> tool list) \<times> 'w \<times> event list \<times> msg list" where
  "check_for_tool_updates_and_new_tools h local_tools_data remote_tools_data installed_tools_names w =
     (if remote_tools_data = [] then (([], []), w, [], [Warn_remote_unavailable])
      else
        (let remote_flat_tools = flat_tools remote_tools_data;
             local_flat_tools = flat_tools local_tools_data;
             new_tools = new_tools_loop remote_flat_tools local_flat_tools installed_tools_names
         in case updates_loop h local_flat_tools installed_tools_names w of
              (tools_to_update, w1, ev, m) \<Rightarrow>
                ((new_tools, tools_to_update), w1, ev, Info_checking_updates # m)))"

text \<open>\<^verbatim>\<open>display_update_status\<close> (lines 118-136).\<close>

definition display_update_status :: "tool list \<Rightarrow> tool list \<Rightarrow> msg list" where
  "display_update_status new_tools tools_to_update =
     [Status_header]
     @ (if new_tools \<noteq> [] then New_tools_header # map (\<lambda>t. New_tool (name t)) new_tools
        else [No_new_tools])
     @ (if tools_to_update \<noteq> [] then Updates_header # map (\<lambda>t. Update_tool (name t)) tools_to_update
        else [All_up_to_date])
     @ [Status_footer]"

text \<open>
  The update-check branch of \<^verbatim>\<open>main\<close> (uht.py, lines 184-193), with the settings
  \<^verbatim>\<open>REMOTE_TOOLS_JSON_URL\<close>, \<^verbatim>\<open>TOOLS_DIR\<close> and \<^verbatim>\<open>TOOLS_DATA\<close> as arguments. \<open>order\<close> is
  the order in which Python iterates a set of names. The branch has no \<^verbatim>\<open>try\<close>: what
  \<^verbatim>\<open>get_remote_tools_data\<close> or \<^verbatim>\<open>get_installed_tools_names\<close> raises leaves it (\<open>Inl\<close>).
  Otherwise it returns what it printed, and after it the menu loop goes on.
\<close>

definition update_check_flow ::
  "'w host \<Rightarrow> net \<Rightarrow> (string set \<Rightarrow> string list) \<Rightarrow> string \<Rightarrow> string \<Rightarrow> catalog \<Rightarrow> 'w
     \<Rightarrow> py_error + ('w \<times> event list \<times> msg list)" where
  "update_check_flow h n order REMOTE_TOOLS_JSON_URL TOOLS_DIR TOOLS_DATA w =
     (case get_remote_tools_data n REMOTE_TOOLS_JSON_URL of
        Inl e \<Rightarrow> Inl e
      | Inr (Some remote_data, m1) \<Rightarrow>
          if remote_data \<noteq> [] then
            (case get_installed_tools_names h w TOOLS_DIR of
               Inl e \<Rightarrow> Inl e
             | Inr installed_names \<Rightarrow>
                 (case check_for_tool_updates_and_new_tools h TOOLS_DATA remote_data
                         (order installed_names) w of
                    ((new_tools, tools_to_update), w1, ev, m2) \<Rightarrow>
                      Inr (w1, ev, m1 @ m2 @ display_update_status new_tools tools_to_update)))
          else Inr (w, [], m1 @ [Err_could_not_check])
      | Inr (None, m1) \<Rightarrow> Inr (w, [], m1 @ [Err_could_not_check]))"

section \<open>Observations on a run\<close>

text \<open>The clone and pull events among the processes a run started.\<close>

fun is_fetch_event :: "event \<Rightarrow> bool" where
  "is_fetch_event (Run p c cwd) = (p = GitPull \<or> p = GitClone)"
| "is_fetch_event _ = False"

definition fetch_events :: "event list \<Rightarrow> event list" where
  "fetch_events evs = filter is_fetch_event evs"

text \<open>The processes of a run, whether it returned or raised; and "the run returned \<open>b\<close>".\<close>

definition events_of :: "'w run \<Rightarrow> event list" where
  "events_of r = (case r of Inl (e, w, evs) \<Rightarrow> evs | Inr (b, w, evs) \<Rightarrow> evs)"

definition returns :: "'w run \<Rightarrow> bool \<Rightarrow> bool" where
  "returns r b = (case r of Inl x \<Rightarrow> False | Inr (b', w, evs) \<Rightarrow> b' = b)"

section \<open>Concrete inputs\<close>

text \<open>The tools of the spec's scenarios, and a Windows-only tool without the skip flag.\<close>

definition nmap_tool :: tool where
  "nmap_tool = \<lparr>name = ''nmap'', github_url = None, install_path = None,
     dependencies = None, post_install_commands = None, run_command = Fixed ''nmap'',
     os_compat = Some [''debian_based_linux''], skip_if_os_not_supported = Some True,
     description = None\<rparr>"

definition winpeas_tool :: tool where
  "winpeas_tool = \<lparr>name = ''winpeas'', github_url = None, install_path = None,
     dependencies = None, post_install_commands = None,
     run_command = PerOS [''windows'' \<mapsto> ''winpeas.exe''],
     os_compat = Some [''windows''], skip_if_os_not_supported = Some False,
     description = None\<rparr>"

definition sqlmap_tool :: tool where
  "sqlmap_tool = \<lparr>name = ''sqlmap'', github_url = Some ''https://example/sqlmap'',
     install_path = Some ''tools/sqlmap'',
     dependencies = Some [''default'' \<mapsto> [''python3'']],
     post_install_commands = None, run_command = Fixed ''python3 sqlmap.py'',
     os_compat = None, skip_if_os_not_supported = None, description = None\<rparr>"


definition macos_signals :: signals where
  "macos_signals = \<lparr>android_root = False, termux_dir = False, system = ''Darwin'',
     os_release = NoFile\<rparr>"


text \<open>
  A host whose world is the list of the paths that exist. \<^verbatim>\<open>git\<close>, \<^verbatim>\<open>python3\<close> and
  \<^verbatim>\<open>pip3\<close> are on the search path; cloning sqlmap creates its directory with a
  \<^verbatim>\<open>requirements.txt\<close>; every \<^verbatim>\<open>pip3\<close> command fails; every other command succeeds.
\<close>

type_synonym world = "string list"

definition demo_host :: "world host" where
  "demo_host = \<lparr>
     which = (\<lambda>w n. n \<in> set [''git'', ''python3'', ''pip3'']),
     shell = (\<lambda>w cmd cwd.
        if cmd = ''git clone https://example/sqlmap tools/sqlmap''
        then (True, ''tools/sqlmap'' # ''tools/sqlmap/requirements.txt'' # w)
        else if prefix ''pip3 '' cmd then (False, w)
        else (True, w)),
     subprocess_run = (\<lambda>w argv. (Completed [], w)),
     path_exists = (\<lambda>w p. p \<in> set w),
     path_is_dir = (\<lambda>w p. p \<in> set w),
     iterdir = (\<lambda>w p.
        if p = ''tools''
        then Inr [\<lparr>entry_name = ''sqlmap'', entry_is_dir = True, entry_is_file = False\<rparr>,
                  \<lparr>entry_name = ''rockyou.txt'', entry_is_dir = False, entry_is_file = True\<rparr>,
                  \<lparr>entry_name = ''notes.md'', entry_is_dir = False, entry_is_file = True\<rparr>]
        else Inr []),
     mkdir_parents = (\<lambda>w p. if p \<in> set w then Inr w else Inr (p # w)),
     path_str = (\<lambda>s. s),
     path_parent = (\<lambda>s. rev (drop 1 (dropWhile (\<lambda>c. c \<noteq> CHR ''/'') (rev s)))),
     path_join = (\<lambda>p n. p @ ''/'' @ n)\<rparr>"

definition installed_world :: world where
  "installed_world = [''tools'', ''tools/sqlmap'', ''tools/sqlmap/requirements.txt'']"



text \<open>The tools of a catalog, all categories flattened.\<close>

definition catalog_tools :: "catalog \<Rightarrow> tool list" where
  "catalog_tools c = concat (map snd c)"

text \<open>
  A local catalog, and a remote catalog with two more tools: one that can be cloned and
  one that is a web resource only.
\<close>

definition ghidra_tool :: tool where
  "ghidra_tool = \<lparr>name = ''ghidra'', github_url = Some ''https://example/ghidra'',
     install_path = Some ''tools/ghidra'', dependencies = None,
     post_install_commands = None, run_command = Fixed ''./ghidraRun'',
     os_compat = None, skip_if_os_not_supported = None, description = None\<rparr>"

definition cheatsheet_tool :: tool where
  "cheatsheet_tool = \<lparr>name = ''cheatsheet'', github_url = None,
     install_path = None, dependencies = None,
     post_install_commands = None, run_command = Fixed ''https://example/cheatsheet'',
     os_compat = None, skip_if_os_not_supported = None, description = None\<rparr>"

definition local_catalog :: catalog where
  "local_catalog = [(''web'', [sqlmap_tool])]"

definition remote_catalog :: catalog where
  "remote_catalog = [(''web'', [sqlmap_tool]), (''reversing'', [ghidra_tool, cheatsheet_tool])]"

text \<open>
  Three networks: the request times out; the connection is refused; the response is not
  a catalog. And one order of iteration over a set of names.
\<close>

definition timeout_net :: net where
  "timeout_net = \<lparr>requests_get = (\<lambda>u t. Timeout), json5_loads = (\<lambda>s. None)\<rparr>"

definition refused_net :: net where
  "refused_net = \<lparr>requests_get = (\<lambda>u t. ConnectionError), json5_loads = (\<lambda>s. None)\<rparr>"

definition garbled_net :: net where
  "garbled_net = \<lparr>requests_get = (\<lambda>u t. Response 200 ''{''), json5_loads = (\<lambda>s. None)\<rparr>"

definition demo_order :: "string set \<Rightarrow> string list" where
  "demo_order S = filter (\<lambda>n. n \<in> S) [''rockyou.txt'', ''sqlmap'']"

section \<open>Compatibility filter: properties\<close>

text \<open>
  Claim C3. The compatibility decision is a total function of the OS family, the tool's
  compatibility list and its skip flag, and follows the precedence table: eligible when the
  OS family is in the list or the list contains \<^verbatim>\<open>any\<close>; otherwise eligible when the list
  is empty and the skip flag is false; otherwise not eligible.
\<close>

theorem isEligible_precedence:
  "is_compatible os_family t \<longleftrightarrow>
     (os_family \<in> set (os_compat_list t) \<or> ''any'' \<in> set (os_compat_list t)
      \<or> (os_compat_list t = [] \<and> \<not> skip_if_not_supported t))"
  by (simp add: is_compatible_def)

theorem isEligible_precedence_witness:
  "is_compatible ''macos'' nmap_tool \<longleftrightarrow>
     (''macos'' \<in> set (os_compat_list nmap_tool) \<or> ''any'' \<in> set (os_compat_list nmap_tool)
      \<or> (os_compat_list nmap_tool = [] \<and> \<not> skip_if_not_supported nmap_tool))"
  using isEligible_precedence [of "''macos''" nmap_tool] by simp

text \<open>
  Claim C4, as the code has it: the listing is exactly the eligible tools, in catalog
  order. Every tool that is not eligible is left out of the listing, whatever its skip
  flag; there is no row for an incompatible tool.
\<close>

theorem listing_is_eligible_tools:
  "final_compatible_tools os_family ts = filter (is_compatible os_family) ts"
  by (induction ts) auto

theorem listing_is_eligible_tools_witness:
  "final_compatible_tools ''macos'' [nmap_tool, sqlmap_tool]
     = filter (is_compatible ''macos'') [nmap_tool, sqlmap_tool]
   \<and> final_compatible_tools ''macos'' [nmap_tool, sqlmap_tool] = [sqlmap_tool]"
  using listing_is_eligible_tools [of "''macos''" "[nmap_tool, sqlmap_tool]"]
  by (simp add: is_compatible_def os_compat_list_def skip_if_not_supported_def
      nmap_tool_def sqlmap_tool_def)

text \<open>
  Claim C4 as stated fails: a tool for Windows only, with the skip flag false, is not
  eligible on macOS and is not in the listing at all, just as a skipped tool.
\<close>

theorem unskipped_ineligible_tool_hidden:
  "\<not> is_compatible ''macos'' winpeas_tool \<and> \<not> skip_if_not_supported winpeas_tool
   \<and> final_compatible_tools ''macos'' [winpeas_tool] = []"
  by (simp add: is_compatible_def winpeas_tool_def os_compat_list_def skip_if_not_supported_def)

section \<open>Environment detector: properties\<close>




section \<open>System dependency installer: properties\<close>




section \<open>Installed state: properties\<close>


lemma rfind_append:
  "rfind c (xs @ ys) =
     (case rfind c ys of Some i \<Rightarrow> Some (length xs + i) | None \<Rightarrow> rfind c xs)"
  by (induction xs) (auto split: option.splits)

lemma rfind_Some_lt: "rfind c xs = Some i \<Longrightarrow> i < length xs"
  by (induction xs arbitrary: i) (auto split: option.splits if_splits)

text \<open>
  A name has the suffix \<^verbatim>\<open>.txt\<close> exactly when it ends in \<^verbatim>\<open>.txt\<close> after a non-empty
  stem: a file called just \<^verbatim>\<open>.txt\<close> has no suffix.
\<close>

lemma path_suffix_txt:
  "path_suffix nm = ''.txt'' \<longleftrightarrow> (\<exists>stem. stem \<noteq> [] \<and> nm = stem @ ''.txt'')"
proof
  assume "path_suffix nm = ''.txt''"
  then obtain i where i: "rfind (CHR ''.'') nm = Some i" "0 < i" "drop i nm = ''.txt''"
    by (auto simp: path_suffix_def split: option.splits if_splits)
  from i(1) have "i < length nm" by (rule rfind_Some_lt)
  with i(2) have "take i nm \<noteq> []" by auto
  moreover have "nm = take i nm @ ''.txt''" using i(3) by (metis append_take_drop_id)
  ultimately show "\<exists>stem. stem \<noteq> [] \<and> nm = stem @ ''.txt''" by blast
next
  assume "\<exists>stem. stem \<noteq> [] \<and> nm = stem @ ''.txt''"
  then obtain stem where s: "stem \<noteq> []" "nm = stem @ ''.txt''" by blast
  have "rfind (CHR ''.'') nm = Some (length stem)"
    unfolding s(2) rfind_append by simp
  with s show "path_suffix nm = ''.txt''" by (simp add: path_suffix_def)
qed





section \<open>Tool installer/updater: properties\<close>

subsection \<open>Which steps start a clone or a pull\<close>

lemma fetch_events_Nil [simp]: "fetch_events [] = []"
  by (simp add: fetch_events_def)

lemma fetch_events_append [simp]: "fetch_events (a @ b) = fetch_events a @ fetch_events b"
  by (simp add: fetch_events_def)

lemma fetch_events_Which [simp]: "fetch_events (Which n # evs) = fetch_events evs"
  by (simp add: fetch_events_def)

lemma fetch_events_Run [simp]:
  "fetch_events (Run p c cwd # evs) =
     (if p = GitPull \<or> p = GitClone then Run p c cwd # fetch_events evs else fetch_events evs)"
  by (simp add: fetch_events_def)













lemma events_of_simps [simp]:
  "events_of (Inl (e, w, evs)) = evs" "events_of (Inr (b, w, evs)) = evs"
  by (simp_all add: events_of_def)

lemma returns_simps [simp]:
  "returns (Inl x) b = False" "returns (Inr (b', w, evs)) b = (b' = b)"
  by (simp_all add: returns_def)


lemmas run_defs = install_tool_def fetch_step_def post_install_step_def requirements_step_def
  install_python_requirements_def tool_full_path_def system_dependencies_def
  install_system_package_def already_installed_def special_names_def strip_def py_whitespace_def
  run_command_in_os_utils_def run_command_str_def Let_def

subsection \<open>The fetch step\<close>




subsection \<open>The result of the operation\<close>

text \<open>
  Claim C1, as the code has it: \<^verbatim>\<open>install_tool\<close> returns true exactly when the dependency
  step, the fetch step and the post-install step have succeeded. The Python requirements
  are not among the mandatory steps: the value of \<^verbatim>\<open>install_python_requirements\<close> only
  chooses the message, and the operation returns true after it in every case.
\<close>

theorem install_tool_result:
  "returns (install_tool h t os_type w) True \<longleftrightarrow>
     (case install_dependencies h (system_dependencies t os_type) os_type w of
        (ok1, w1, ev1) \<Rightarrow>
          ok1 \<and> (case fetch_step h t w1 of
                   Inl x \<Rightarrow> False
                 | Inr (ok2, w2, ev2) \<Rightarrow> ok2 \<and> fst (post_install_step h t w2)))"
  by (simp add: install_tool_def split: prod.splits sum.splits)

theorem install_tool_result_witness:
  "returns (install_tool demo_host sqlmap_tool ''debian_based_linux'' installed_world) True
   \<and> fst (install_dependencies demo_host (system_dependencies sqlmap_tool ''debian_based_linux'')
        ''debian_based_linux'' installed_world)
   \<and> returns (fetch_step demo_host sqlmap_tool installed_world) True
   \<and> fst (post_install_step demo_host sqlmap_tool installed_world)"
  using install_tool_result [of demo_host sqlmap_tool "''debian_based_linux''" installed_world]
  by (simp add: run_defs demo_host_def sqlmap_tool_def installed_world_def)

text \<open>
  Claim C1 as stated fails: sqlmap is installed, its \<^verbatim>\<open>requirements.txt\<close> is there,
  \<^verbatim>\<open>pip3\<close> is found and the \<^verbatim>\<open>pip3 install\<close> fails, so
  \<^verbatim>\<open>install_python_requirements\<close> returns false; \<^verbatim>\<open>install_tool\<close> returns true.
\<close>

theorem pip_failure_still_true:
  "path_exists demo_host installed_world ''tools/sqlmap/requirements.txt''
   \<and> \<not> fst (shell demo_host installed_world ''pip3 install -r tools/sqlmap/requirements.txt'' None)
   \<and> \<not> fst (install_python_requirements demo_host ''tools/sqlmap'' installed_world)
   \<and> install_tool demo_host sqlmap_tool ''debian_based_linux'' installed_world =
       Inr (True, installed_world,
            [Which ''python3'', Run GitPull ''git -C tools/sqlmap pull'' None, Which ''pip3'',
             Run PipInstall ''pip3 install -r tools/sqlmap/requirements.txt'' None])"
  by (simp add: run_defs demo_host_def sqlmap_tool_def installed_world_def)

section \<open>Running a tool: properties\<close>

text \<open>
  Claim C10. When the run command of a tool is a per-OS mapping that has neither the
  detected OS type nor \<^verbatim>\<open>default\<close> as a key, \<^verbatim>\<open>run_tool\<close> returns false and has started
  no external command.
\<close>

theorem run_tool_no_command:
  "run_command t = PerOS m \<Longrightarrow> get_os_type sig = Inr current_os_type \<Longrightarrow>
     m current_os_type = None \<Longrightarrow> m ''default'' = None \<Longrightarrow>
     run_tool h sig t w = Inr (False, w, [])"
  by (simp add: run_tool_def resolve_run_command_def)

theorem run_tool_no_command_witness:
  "run_command winpeas_tool = PerOS [''windows'' \<mapsto> ''winpeas.exe'']
   \<and> get_os_type macos_signals = Inr ''macos''
   \<and> [''windows'' \<mapsto> ''winpeas.exe''] ''macos'' = None
   \<and> [''windows'' \<mapsto> ''winpeas.exe''] ''default'' = None
   \<and> run_tool demo_host macos_signals winpeas_tool installed_world
        = Inr (False, installed_world, [])"
proof -
  have a: "run_command winpeas_tool = PerOS [''windows'' \<mapsto> ''winpeas.exe'']"
    by (simp add: winpeas_tool_def)
  have b: "get_os_type macos_signals = Inr ''macos''"
    by (simp add: get_os_type_def macos_signals_def)
  have c: "[''windows'' \<mapsto> ''winpeas.exe''] ''macos'' = None"
    and d: "[''windows'' \<mapsto> ''winpeas.exe''] ''default'' = None" by simp_all
  show ?thesis
    using a b c d run_tool_no_command [OF a b c d, of demo_host installed_world] by simp
qed

section \<open>Remote catalog synchronizer: properties\<close>

subsection \<open>Flattening a catalog\<close>

lemma foldl_foldl_concat: "foldl (\<lambda>d xs. foldl f d xs) a xss = foldl f a (concat xss)"
  by (induction xss arbitrary: a) simp_all

lemma flat_tools_foldl:
  "flat_tools c = foldl (\<lambda>d t. AList.update (name t) t d) [] (catalog_tools c)"
  by (simp add: flat_tools_def catalog_tools_def foldl_foldl_concat)

lemma update_fresh: "k \<notin> fst ` set d \<Longrightarrow> AList.update k v d = d @ [(k, v)]"
  by (induction d) auto

lemma ins_keys:
  "fst ` set (foldl (\<lambda>d t. AList.update (name t) t d) d ts) = fst ` set d \<union> name ` set ts"
  by (induction ts arbitrary: d) (auto simp: AList.dom_update)

lemma update_entry:
  "(k, v) \<in> set (AList.update k' v' d) \<Longrightarrow> (k, v) \<in> set d \<or> (k = k' \<and> v = v')"
  by (induction d) (auto split: if_splits)

lemma ins_entry:
  "(k, v) \<in> set (foldl (\<lambda>d t. AList.update (name t) t d) d ts) \<Longrightarrow>
     (k, v) \<in> set d \<or> (v \<in> set ts \<and> k = name v)"
proof (induction ts arbitrary: d)
  case Nil
  then show ?case by simp
next
  case (Cons t ts)
  from Cons.IH [OF Cons.prems [simplified]]
  show ?case by (auto dest: update_entry)
qed

text \<open>With distinct names no entry is overwritten: the dict lists the tools in order.\<close>

lemma ins_distinct:
  "distinct (map name ts) \<Longrightarrow> name ` set ts \<inter> fst ` set d = {} \<Longrightarrow>
     foldl (\<lambda>d t. AList.update (name t) t d) d ts = d @ map (\<lambda>t. (name t, t)) ts"
proof (induction ts arbitrary: d)
  case Nil
  then show ?case by simp
next
  case (Cons t ts)
  have fresh: "name t \<notin> fst ` set d" using Cons.prems(2) by auto
  have "name ` set ts \<inter> fst ` set (d @ [(name t, t)]) = {}"
    using Cons.prems by auto
  with Cons.IH [of "d @ [(name t, t)]"] Cons.prems(1) fresh
  show ?case by (simp add: update_fresh)
qed

lemma flat_tools_keys: "fst ` set (flat_tools c) = name ` set (catalog_tools c)"
  by (simp add: flat_tools_foldl ins_keys)

lemma flat_tools_entry:
  "(k, v) \<in> set (flat_tools c) \<Longrightarrow> v \<in> set (catalog_tools c) \<and> k = name v"
  using ins_entry [of k v "[]" "catalog_tools c"] by (simp add: flat_tools_foldl)

lemma flat_tools_distinct:
  "distinct (map name (catalog_tools c)) \<Longrightarrow>
     flat_tools c = map (\<lambda>t. (name t, t)) (catalog_tools c)"
  using ins_distinct [of "catalog_tools c" "[]"] by (simp add: flat_tools_foldl)

lemma new_tools_fst:
  "fst (fst (check_for_tool_updates_and_new_tools h loc remote installed w)) =
     (if remote = [] then []
      else new_tools_loop (flat_tools remote) (flat_tools loc) installed)"
  by (simp add: check_for_tool_updates_and_new_tools_def Let_def split: prod.splits)

subsection \<open>New tools\<close>

text \<open>
  Claim C2. Every tool that \<^verbatim>\<open>check_for_tool_updates_and_new_tools\<close> reports as new is a
  remote tool that declares both a source URL and an install path, and whose name is
  neither installed nor in the flattened local catalog; so a remote tool without a URL or
  without a path is never reported as new, even when the local catalog does not have it.
  Conversely, with the names of the remote catalog unique (the invariant of the data
  model), a remote tool is reported as new exactly when these conditions hold.
\<close>

theorem new_tools_exact:
  "(\<forall>t \<in> set (fst (fst (check_for_tool_updates_and_new_tools h loc remote installed w))).
       t \<in> set (catalog_tools remote) \<and> truthy (github_url t) \<and> truthy (install_path t)
       \<and> name t \<notin> set installed \<and> name t \<notin> name ` set (catalog_tools loc))
   \<and> (distinct (map name (catalog_tools remote)) \<longrightarrow>
        (\<forall>t \<in> set (catalog_tools remote).
           t \<in> set (fst (fst (check_for_tool_updates_and_new_tools h loc remote installed w)))
           \<longleftrightarrow> (truthy (github_url t) \<and> truthy (install_path t)
                 \<and> name t \<notin> set installed \<and> name t \<notin> name ` set (catalog_tools loc))))"
proof -
  let ?new = "fst (fst (check_for_tool_updates_and_new_tools h loc remote installed w))"
  let ?P = "\<lambda>t. truthy (github_url t) \<and> truthy (install_path t)
       \<and> name t \<notin> set installed \<and> name t \<notin> name ` set (catalog_tools loc)"
  have sound: "t \<in> set (catalog_tools remote) \<and> ?P t" if "t \<in> set ?new" for t
  proof -
    from that obtain k where k: "(k, t) \<in> set (flat_tools remote)"
      and new: "is_new_tool (flat_tools loc) installed (k, t)"
      by (auto simp: new_tools_fst new_tools_loop_def split: if_splits)
    from k have "t \<in> set (catalog_tools remote)" and "k = name t"
      by (auto dest: flat_tools_entry)
    with new show ?thesis
      by (simp add: is_new_tool_def flat_tools_keys)
  qed
  have complete: "t \<in> set ?new \<longleftrightarrow> ?P t"
    if d: "distinct (map name (catalog_tools remote))" and t: "t \<in> set (catalog_tools remote)"
    for t
  proof -
    from t have ne: "remote \<noteq> []" by (auto simp: catalog_tools_def)
    show ?thesis
      using t ne
      by (auto simp: new_tools_fst new_tools_loop_def flat_tools_distinct [OF d] is_new_tool_def
          flat_tools_keys image_iff)
  qed
  show ?thesis using sound complete by blast
qed

theorem new_tools_exact_witness:
  "distinct (map name (catalog_tools remote_catalog))
   \<and> fst (fst (check_for_tool_updates_and_new_tools demo_host local_catalog remote_catalog
                  [''sqlmap''] installed_world)) = [ghidra_tool]
   \<and> cheatsheet_tool \<in> set (catalog_tools remote_catalog)
   \<and> \<not> truthy (github_url cheatsheet_tool)
   \<and> name cheatsheet_tool \<notin> name ` set (catalog_tools local_catalog)"
  using new_tools_exact [of demo_host local_catalog remote_catalog "[''sqlmap'']" installed_world]
  by (simp add: new_tools_fst new_tools_loop_def is_new_tool_def flat_tools_def
      catalog_tools_def remote_catalog_def local_catalog_def
      sqlmap_tool_def ghidra_tool_def cheatsheet_tool_def)

subsection \<open>Fetching the remote catalog\<close>

text \<open>
  An unparsable response, evaluated: the \<^verbatim>\<open>ValueError\<close> of \<^verbatim>\<open>json5.loads\<close> reaches the
  clause that names \<^verbatim>\<open>json5.JSON5Error\<close>, the look-up raises \<^verbatim>\<open>AttributeError\<close>, and
  the update-check branch of \<^verbatim>\<open>main\<close> raises with it.
\<close>

lemma parse_failure_raises:
  "url \<noteq> [] \<Longrightarrow> requests_get n url 15 = Response status body \<Longrightarrow>
     \<not> (400 \<le> status \<and> status < 600) \<Longrightarrow> json5_loads n body = None \<Longrightarrow>
     get_remote_tools_data n url = Inl AttributeError
     \<and> update_check_flow h n order url tools_dir tools_data w = Inl AttributeError"
  by (simp add: get_remote_tools_data_def update_check_flow_def)

lemma garbled_response_raises:
  "get_remote_tools_data garbled_net ''https://example/tools.json'' = Inl AttributeError"
  by (simp add: get_remote_tools_data_def garbled_net_def)

text \<open>
  Claim C8, as the code has it: \<^verbatim>\<open>get_remote_tools_data\<close> asks for the catalog with a
  timeout of 15 seconds. A timeout, a connection error and any other request error (an
  HTTP error status among them) are caught one by one, each with its own message, and all
  return the same value \<^verbatim>\<open>None\<close>: the result carries no error kind. Whenever the result
  is \<^verbatim>\<open>None\<close>, the update-check branch of \<^verbatim>\<open>main\<close> prints that the check could not be
  done, starts no process and goes on.
\<close>

theorem fetch_failures:
  "(url \<noteq> [] \<and> requests_get n url 15 = Timeout \<longrightarrow>
      get_remote_tools_data n url = Inr (None, [Info_fetching, Err_timeout]))
   \<and> (url \<noteq> [] \<and> requests_get n url 15 = ConnectionError \<longrightarrow>
      get_remote_tools_data n url = Inr (None, [Info_fetching, Err_connection]))
   \<and> (url \<noteq> [] \<and> (requests_get n url 15 = RequestException
         \<or> (\<exists>status body. requests_get n url 15 = Response status body
               \<and> 400 \<le> status \<and> status < 600)) \<longrightarrow>
      get_remote_tools_data n url = Inr (None, [Info_fetching, Err_request]))
   \<and> (get_remote_tools_data n url = Inr (None, m) \<longrightarrow>
      update_check_flow h n order url tools_dir tools_data w
        = Inr (w, [], m @ [Err_could_not_check]))"
  by (auto simp: get_remote_tools_data_def update_check_flow_def)

theorem fetch_failures_witness:
  "requests_get timeout_net ''https://example/tools.json'' 15 = Timeout
   \<and> get_remote_tools_data timeout_net ''https://example/tools.json''
        = Inr (None, [Info_fetching, Err_timeout])
   \<and> update_check_flow demo_host timeout_net demo_order ''https://example/tools.json''
        ''tools'' local_catalog installed_world
        = Inr (installed_world, [], [Info_fetching, Err_timeout, Err_could_not_check])"
  using fetch_failures [of "''https://example/tools.json''" timeout_net
      "[Info_fetching, Err_timeout]" demo_host demo_order "''tools''" local_catalog
      installed_world]
  by (simp add: timeout_net_def)

text \<open>
  Claim C8 as stated fails: a timeout and a refused connection give the same result
  \<^verbatim>\<open>None\<close>, so the caller cannot tell the error kinds apart and no network error value
  is returned.
\<close>

theorem fetch_errors_not_distinct:
  "get_remote_tools_data timeout_net ''https://example/tools.json''
     = Inr (None, [Info_fetching, Err_timeout])
   \<and> get_remote_tools_data refused_net ''https://example/tools.json''
     = Inr (None, [Info_fetching, Err_connection])
   \<and> map_sum id fst (get_remote_tools_data timeout_net ''https://example/tools.json'')
     = map_sum id fst (get_remote_tools_data refused_net ''https://example/tools.json'')"
  by (simp add: get_remote_tools_data_def timeout_net_def refused_net_def)

end
